theory Spec2Isabelle
  imports Complex_Main
begin

section \<open>TimeSeriesDBSCAN: the distance-matrix-backed DBSCAN adapter\<close>

text \<open>
  A shallow embedding of \<^verbatim>\<open>sktime/clustering/dbscan.py\<close>. The class
  \<^verbatim>\<open>TimeSeriesDBSCAN\<close> wraps sklearn's DBSCAN: \<^verbatim>\<open>_fit\<close> calls the configured
  distance on the panel, builds a DBSCAN with \<^verbatim>\<open>metric="precomputed"\<close>, fits it on
  the distance matrix and copies fitted attributes onto itself; \<^verbatim>\<open>_predict\<close> returns
  the stored labels when it is handed the very object seen in \<^verbatim>\<open>_fit\<close>, and fits a
  clone on the updated data otherwise.

  Python objects are mutable and compared by identity (\<^verbatim>\<open>X is self._X\<close>), so panels
  and estimators live in a store and are passed around as addresses. Exceptions are
  values of a sum type; a method returns its outcome together with the store, so that
  an assignment made before a raise is still visible afterwards.

  Leading underscores are not allowed in names here: \<^verbatim>\<open>_fit\<close>, \<^verbatim>\<open>_predict\<close>,
  \<^verbatim>\<open>_tags\<close>, \<^verbatim>\<open>__init__\<close> and the attribute \<^verbatim>\<open>_X\<close> are \<open>inner_fit\<close>,
  \<open>inner_predict\<close>, \<open>class_tags\<close>, \<open>init\<close> and \<open>X_fit\<close>; the attribute
  \<^verbatim>\<open>dbscan_\<close> is \<open>dbscan_obj\<close>.
\<close>

subsection \<open>Values, errors and external collaborators\<close>

text \<open>The constructor arguments that are passed through to sklearn untouched.\<close>

datatype pyval = PyNone | PyInt int | PyFloat real | PyStr string

text \<open>Values of estimator tags: booleans, a string, or a list of strings.\<close>

datatype tagval = TBool bool | TStr string | TStrs "string list"

text \<open>
  The exceptions that can leave the methods. \<open>Raised\<close> is an exception of an external
  collaborator (the distance or sklearn's DBSCAN), propagated unchanged.
  \<open>DanglingReference\<close> is not a Python exception: it marks an address that names no
  object of the store, which a Python reference never does.
\<close>

datatype error =
    TypeError string
  | AttributeError string
  | NotFittedError
  | Raised string
  | DanglingReference

text \<open>
  What the constructor may receive as \<^verbatim>\<open>distance\<close>: a string naming a distance, an
  instance of \<^verbatim>\<open>BasePairwiseTransformerPanel\<close> (with the tags it declares and its
  \<^verbatim>\<open>__call__\<close>), or some other callable.
\<close>

datatype ('p, 'm) distance_obj =
    StrDistance string
  | PanelTransformer "string \<rightharpoonup> tagval" "'p \<Rightarrow> error + 'm"
  | Callable "'p \<Rightarrow> error + 'm"

fun isinstance_str :: "('p, 'm) distance_obj \<Rightarrow> bool" where
  "isinstance_str (StrDistance s) = True"
| "isinstance_str (PanelTransformer t f) = False"
| "isinstance_str (Callable f) = False"

fun isinstance_BasePairwiseTransformerPanel :: "('p, 'm) distance_obj \<Rightarrow> bool" where
  "isinstance_BasePairwiseTransformerPanel (StrDistance s) = False"
| "isinstance_BasePairwiseTransformerPanel (PanelTransformer t f) = True"
| "isinstance_BasePairwiseTransformerPanel (Callable f) = False"

fun get_tags_of :: "('p, 'm) distance_obj \<Rightarrow> string \<rightharpoonup> tagval" where
  "get_tags_of (StrDistance s) = Map.empty"
| "get_tags_of (PanelTransformer t f) = t"
| "get_tags_of (Callable f) = Map.empty"

text \<open>
  sklearn's DBSCAN object: the keyword arguments it was constructed with and the
  attributes its \<^verbatim>\<open>fit\<close> has set (none before \<^verbatim>\<open>fit\<close>). What \<^verbatim>\<open>fit\<close> computes is
  outside the repository: it is a parameter \<open>sk\<close> of the model, a function from the
  constructor arguments and the matrix to an exception or the fitted attributes.
\<close>

record 'a dbscan =
  params :: "(string \<times> pyval) list"
  attrs :: "string \<rightharpoonup> 'a"

type_synonym ('m, 'a) delegate = "(string \<times> pyval) list \<Rightarrow> 'm \<Rightarrow> error + (string \<rightharpoonup> 'a)"

subsection \<open>The estimator and the store\<close>

record ('p, 'm, 'a) adapter =
  distance :: "('p, 'm) distance_obj"
  eps :: pyval
  min_samples :: pyval
  algorithm :: pyval
  leaf_size :: pyval
  n_jobs :: pyval
  tags_dynamic :: "string \<rightharpoonup> tagval"
  dbscan_obj :: "'a dbscan option"
  X_fit :: "nat option"
  fitted_attrs :: "string \<rightharpoonup> 'a"
  is_fitted :: bool

text \<open>
  What the methods do that is visible from outside, in order: a call of the distance
  that entered the callable (with the address of the panel), the construction of a
  DBSCAN, a call of its \<^verbatim>\<open>fit\<close> (with the matrix), a warning.
\<close>

datatype 'm event =
    DistanceCall nat
  | DBSCANInit "(string \<times> pyval) list"
  | DBSCANFit 'm
  | Warn string

record ('p, 'm, 'a) world =
  panels :: "'p list"
  adapters :: "('p, 'm, 'a) adapter list"
  trace :: "'m event list"

definition put_adapter ::
  "nat \<Rightarrow> (('p, 'm, 'a) adapter \<Rightarrow> ('p, 'm, 'a) adapter) \<Rightarrow>
   ('p, 'm, 'a) world \<Rightarrow> ('p, 'm, 'a) world" where
  "put_adapter self f w = w\<lparr>adapters := (adapters w)[self := f (adapters w ! self)]\<rparr>"

definition emit :: "'m event \<Rightarrow> ('p, 'm, 'a) world \<Rightarrow> ('p, 'm, 'a) world" where
  "emit e w = w\<lparr>trace := trace w @ [e]\<rparr>"

subsection \<open>Tags\<close>

text \<open>The class attribute \<^verbatim>\<open>_tags\<close>.\<close>

definition class_tags :: "(string \<times> tagval) list" where
  "class_tags =
    [(''authors'', TStr ''fkiraly''),
     (''capability:multivariate'', TBool True),
     (''capability:unequal_length'', TBool True),
     (''capability:missing_values'', TBool True),
     (''X_inner_mtype'', TStrs [''pd-multiindex'', ''numpy3D'']),
     (''capability:out_of_sample'', TBool False),
     (''capability:predict'', TBool True),
     (''capability:predict_proba'', TBool False),
     (''tests:core'', TBool True)]"

definition DELEGATED_PARAMS :: "string list" where
  "DELEGATED_PARAMS = [''eps'', ''min_samples'', ''algorithm'', ''leaf_size'', ''n_jobs'']"

definition DELEGATED_FITTED_PARAMS :: "string list" where
  "DELEGATED_FITTED_PARAMS = [''core_sample_indices_'', ''components_ '', ''labels_'']"

text \<open>
  The tag interface of the base object: the tags an estimator declares are its class
  tags overridden by the tags set on the instance; \<^verbatim>\<open>set_tags\<close> sets instance tags;
  \<^verbatim>\<open>clone_tags\<close> copies from another estimator those of the named tags that it
  declares.
\<close>

definition get_tags :: "('p, 'm, 'a) adapter \<Rightarrow> string \<rightharpoonup> tagval" where
  "get_tags self = map_of class_tags ++ tags_dynamic self"

definition get_tag :: "('p, 'm, 'a) adapter \<Rightarrow> string \<Rightarrow> tagval option" where
  "get_tag self name = get_tags self name"

definition set_tags ::
  "(string \<times> tagval) list \<Rightarrow> ('p, 'm, 'a) adapter \<Rightarrow> ('p, 'm, 'a) adapter" where
  "set_tags kvs self = self\<lparr>tags_dynamic := tags_dynamic self ++ map_of kvs\<rparr>"

definition clone_tags ::
  "(string \<rightharpoonup> tagval) \<Rightarrow> string list \<Rightarrow> ('p, 'm, 'a) adapter \<Rightarrow> ('p, 'm, 'a) adapter" where
  "clone_tags tags_est tag_names self =
     self\<lparr>tags_dynamic := tags_dynamic self ++ (tags_est |` set tag_names)\<rparr>"

subsection \<open>The constructor\<close>

definition tags_to_clone :: "string list" where
  "tags_to_clone =
    [''capability:multivariate'', ''capability:unequal_length'', ''capability:missing_values'']"

definition tags_to_set :: "(string \<times> tagval) list" where
  "tags_to_set = [(''X_inner_mtype'', TStr ''numpy3D''), (''capability:unequal_length'', TBool False)]"

text \<open>
  \<^verbatim>\<open>__init__\<close>, with every argument given (the defaults of the source are
  \<^verbatim>\<open>eps=0.5, min_samples=5, algorithm="auto", leaf_size=30, n_jobs=None\<close>). The
  object starts with no instance tags, no fit data and no fitted attribute.
\<close>

definition init ::
  "('p, 'm) distance_obj \<Rightarrow> pyval \<Rightarrow> pyval \<Rightarrow> pyval \<Rightarrow> pyval \<Rightarrow> pyval \<Rightarrow>
   ('p, 'm, 'a) adapter" where
  "init d e ms alg ls nj =
    (let self0 = \<lparr>distance = d, eps = e, min_samples = ms, algorithm = alg, leaf_size = ls,
                  n_jobs = nj, tags_dynamic = Map.empty, dbscan_obj = None, X_fit = None,
                  fitted_attrs = Map.empty, is_fitted = False\<rparr>;
         self1 = (if isinstance_BasePairwiseTransformerPanel d
                  then clone_tags (get_tags_of d) tags_to_clone self0 else self0);
         self2 = (if isinstance_str d then set_tags tags_to_set self1 else self1)
     in self2\<lparr>dbscan_obj := None\<rparr>)"

definition eps_default :: pyval where "eps_default = PyFloat (1 / 2)"
definition min_samples_default :: pyval where "min_samples_default = PyInt 5"
definition algorithm_default :: pyval where "algorithm_default = PyStr ''auto''"
definition leaf_size_default :: pyval where "leaf_size_default = PyInt 30"
definition n_jobs_default :: pyval where "n_jobs_default = PyNone"

text \<open>Allocation: a new object gets the next address of its store.\<close>

definition new_adapter ::
  "('p, 'm, 'a) adapter \<Rightarrow> ('p, 'm, 'a) world \<Rightarrow> nat \<times> ('p, 'm, 'a) world" where
  "new_adapter a w = (length (adapters w), w\<lparr>adapters := adapters w @ [a]\<rparr>)"

definition new_panel ::
  "'p \<Rightarrow> ('p, 'm, 'a) world \<Rightarrow> nat \<times> ('p, 'm, 'a) world" where
  "new_panel X w = (length (panels w), w\<lparr>panels := panels w @ [X]\<rparr>)"

subsection \<open>Fitting\<close>

text \<open>
  The call \<^verbatim>\<open>distance(X)\<close> on the panel at address \<open>X\<close>. A Python string is not
  callable: calling it raises \<^verbatim>\<open>TypeError\<close> and enters no distance at all.
\<close>

fun call_distance ::
  "('p, 'm) distance_obj \<Rightarrow> nat \<Rightarrow> ('p, 'm, 'a) world \<Rightarrow> (error + 'm) \<times> ('p, 'm, 'a) world" where
  "call_distance (StrDistance s) X w = (Inl (TypeError ''str object is not callable''), w)"
| "call_distance (PanelTransformer t f) X w = (f (panels w ! X), emit (DistanceCall X) w)"
| "call_distance (Callable f) X w = (f (panels w ! X), emit (DistanceCall X) w)"

text \<open>\<^verbatim>\<open>getattr(self, key)\<close> for the constructor arguments.\<close>

definition getattr_param :: "('p, 'm, 'a) adapter \<Rightarrow> string \<Rightarrow> pyval option" where
  "getattr_param self key =
    (if key = ''eps'' then Some (eps self)
     else if key = ''min_samples'' then Some (min_samples self)
     else if key = ''algorithm'' then Some (algorithm self)
     else if key = ''leaf_size'' then Some (leaf_size self)
     else if key = ''n_jobs'' then Some (n_jobs self)
     else None)"

text \<open>The comprehension \<^verbatim>\<open>{key: getattr(self, key) for key in keys}\<close>.\<close>

fun param_dict :: "('p, 'm, 'a) adapter \<Rightarrow> string list \<Rightarrow> error + (string \<times> pyval) list" where
  "param_dict self [] = Inr []"
| "param_dict self (key # keys) =
    (case getattr_param self key of
       None \<Rightarrow> Inl (AttributeError key)
     | Some v \<Rightarrow>
        (case param_dict self keys of
           Inl e \<Rightarrow> Inl e
         | Inr kvs \<Rightarrow> Inr ((key, v) # kvs)))"

text \<open>
  The loop over \<^verbatim>\<open>DELEGATED_FITTED_PARAMS\<close>: an attribute that the fitted DBSCAN has
  is set on the estimator, one that it does not have is skipped.
\<close>

fun copy_fitted ::
  "'a dbscan \<Rightarrow> string list \<Rightarrow> ('p, 'm, 'a) adapter \<Rightarrow> ('p, 'm, 'a) adapter" where
  "copy_fitted d [] self = self"
| "copy_fitted d (key # keys) self =
    (case attrs d key of
       Some v \<Rightarrow> copy_fitted d keys (self\<lparr>fitted_attrs := (fitted_attrs self)(key \<mapsto> v)\<rparr>)
     | None \<Rightarrow> copy_fitted d keys self)"

text \<open>
  \<^verbatim>\<open>_fit(self, X)\<close>, on the estimator at address \<open>self\<close> and the panel at address
  \<open>X\<close>. It returns \<^verbatim>\<open>self\<close>. The fit data is stored before the distance is
  called, so it stays stored when a later step raises.
\<close>

definition inner_fit ::
  "('m, 'a) delegate \<Rightarrow> nat \<Rightarrow> nat \<Rightarrow> ('p, 'm, 'a) world \<Rightarrow>
   (error + nat) \<times> ('p, 'm, 'a) world" where
  "inner_fit sk self X w =
    (if self < length (adapters w) \<and> X < length (panels w) then
       let w1 = put_adapter self (\<lambda>a. a\<lparr>X_fit := Some X\<rparr>) w;
           d = distance (adapters w1 ! self)
       in case call_distance d X w1 of
            (Inl e, w2) \<Rightarrow> (Inl e, w2)
          | (Inr distmat, w2) \<Rightarrow>
            (case param_dict (adapters w2 ! self) DELEGATED_PARAMS of
               Inl e \<Rightarrow> (Inl e, w2)
             | Inr deleg_param_dict \<Rightarrow>
               let kwargs = (''metric'', PyStr ''precomputed'') # deleg_param_dict;
                   w3 = emit (DBSCANInit kwargs)
                          (put_adapter self
                             (\<lambda>a. a\<lparr>dbscan_obj := Some \<lparr>params = kwargs, attrs = Map.empty\<rparr>\<rparr>) w2);
                   w4 = emit (DBSCANFit distmat) w3
               in (case sk kwargs distmat of
                     Inl e \<Rightarrow> (Inl e, w4)
                   | Inr fitted \<Rightarrow>
                     let fitted_dbscan = \<lparr>params = kwargs, attrs = fitted\<rparr>;
                         w5 = put_adapter self (\<lambda>a. a\<lparr>dbscan_obj := Some fitted_dbscan\<rparr>) w4;
                         w6 = put_adapter self
                                (copy_fitted fitted_dbscan DELEGATED_FITTED_PARAMS) w5
                     in (Inr self, w6)))
     else (Inl DanglingReference, w))"

subsection \<open>The lifecycle around the class\<close>

text \<open>
  Modelled from the spec: the public \<^verbatim>\<open>fit\<close> of the base class
  (\<^verbatim>\<open>sktime.clustering.base\<close>) is not among the sources. The spec's state machine
  is Unfitted \<open>\<rightarrow>\<close> Fitted via \<^verbatim>\<open>fit\<close>, which returns the fitted estimator: the
  method runs \<^verbatim>\<open>_fit\<close> and, when that returns, marks the estimator fitted.
\<close>

definition fit ::
  "('m, 'a) delegate \<Rightarrow> nat \<Rightarrow> nat \<Rightarrow> ('p, 'm, 'a) world \<Rightarrow>
   (error + nat) \<times> ('p, 'm, 'a) world" where
  "fit sk self X w =
    (case inner_fit sk self X w of
       (Inl e, w') \<Rightarrow> (Inl e, w')
     | (Inr fitted, w') \<Rightarrow> (Inr fitted, put_adapter fitted (\<lambda>a. a\<lparr>is_fitted := True\<rparr>) w'))"

text \<open>
  Modelled from the spec: \<^verbatim>\<open>clone\<close> of the base object is not among the sources.
  The spec has it construct a fresh estimator with identical configuration: the
  constructor run again on the six constructor arguments.
\<close>

definition clone :: "('p, 'm, 'a) adapter \<Rightarrow> ('p, 'm, 'a) adapter" where
  "clone self =
     init (distance self) (eps self) (min_samples self) (algorithm self) (leaf_size self)
       (n_jobs self)"

text \<open>
  Modelled from the spec: \<^verbatim>\<open>sktime.utils.warnings.warn\<close> is not among the sources.
  The spec has the warning emitted, visible to the user.
\<close>

definition warn :: "string \<Rightarrow> ('p, 'm, 'a) world \<Rightarrow> ('p, 'm, 'a) world" where
  "warn msg w = emit (Warn msg) w"

definition refit_warning :: string where
  "refit_warning =
     ''sklearn and sktime DBSCAN estimators do not support different X '' @
     ''in fit and predict, but a new X was passed in predict. '' @
     ''Therefore, a clone of TimeSeriesDBSCAN will be fit, and results '' @
     ''returned, without updating the state of the fitted estimator.''"

text \<open>
  Modelled from the spec: \<^verbatim>\<open>sktime.datatypes.update_data\<close> is not among the sources.
  The spec gives it append semantics on a panel, an ordered collection of instances
  each under its instance index: the fit data comes first and is left unchanged, the
  instances of the new data that are not already present follow, in their order.
\<close>

definition update_data :: "('k \<times> 's) list \<Rightarrow> ('k \<times> 's) list \<Rightarrow> ('k \<times> 's) list" where
  "update_data X X_new = X @ filter (\<lambda>inst. fst inst \<notin> set (map fst X)) X_new"

subsection \<open>Predicting\<close>

text \<open>\<^verbatim>\<open>self.labels_\<close> and the like: reading an attribute that was never set raises.\<close>

definition getattr_fitted :: "('p, 'm, 'a) adapter \<Rightarrow> string \<Rightarrow> error + 'a" where
  "getattr_fitted self key =
    (case fitted_attrs self key of None \<Rightarrow> Inl (AttributeError key) | Some v \<Rightarrow> Inr v)"

text \<open>
  \<^verbatim>\<open>_predict(self, X)\<close>. The test \<^verbatim>\<open>X is self._X\<close> compares addresses. The function
  \<open>upd\<close> stands for \<^verbatim>\<open>update_data\<close>, whose result is a new panel object.
\<close>

definition inner_predict ::
  "('m, 'a) delegate \<Rightarrow> ('p \<Rightarrow> 'p \<Rightarrow> 'p) \<Rightarrow> nat \<Rightarrow> nat \<Rightarrow> ('p, 'm, 'a) world \<Rightarrow>
   (error + 'a) \<times> ('p, 'm, 'a) world" where
  "inner_predict sk upd self X w =
    (if self < length (adapters w) \<and> X < length (panels w) then
       case X_fit (adapters w ! self) of
         None \<Rightarrow> (Inl (AttributeError ''_X''), w)
       | Some X0 \<Rightarrow>
           if X = X0 then (getattr_fitted (adapters w ! self) ''labels_'', w)
           else if X0 < length (panels w) then
             let (all_X, w1) = new_panel (upd (panels w ! X0) (panels w ! X)) w;
                 w2 = warn refit_warning w1;
                 (c, w3) = new_adapter (clone (adapters w2 ! self)) w2
             in case fit sk c all_X w3 of
                  (Inl e, w4) \<Rightarrow> (Inl e, w4)
                | (Inr fitted, w4) \<Rightarrow> (getattr_fitted (adapters w4 ! fitted) ''labels_'', w4)
           else (Inl DanglingReference, w)
     else (Inl DanglingReference, w))"

text \<open>
  Modelled from the spec: the public \<^verbatim>\<open>predict\<close> of the base class is not among the
  sources. The spec has \<^verbatim>\<open>predict\<close> before \<^verbatim>\<open>fit\<close> fail with a NotFitted
  condition; on a fitted estimator it is \<^verbatim>\<open>_predict\<close>.
\<close>

definition predict ::
  "('m, 'a) delegate \<Rightarrow> ('p \<Rightarrow> 'p \<Rightarrow> 'p) \<Rightarrow> nat \<Rightarrow> nat \<Rightarrow> ('p, 'm, 'a) world \<Rightarrow>
   (error + 'a) \<times> ('p, 'm, 'a) world" where
  "predict sk upd self X w =
    (if self < length (adapters w) then
       if is_fitted (adapters w ! self) then inner_predict sk upd self X w
       else (Inl NotFittedError, w)
     else (Inl DanglingReference, w))"

subsection \<open>Notions used in the statements\<close>

text \<open>The callable behind a distance object, if it is callable at all.\<close>

fun provider_of :: "('p, 'm) distance_obj \<Rightarrow> ('p \<Rightarrow> error + 'm) option" where
  "provider_of (StrDistance s) = None"
| "provider_of (PanelTransformer t f) = Some f"
| "provider_of (Callable f) = Some f"

text \<open>
  The keyword arguments sklearn's DBSCAN should be constructed with: the fixed metric
  and the five values the estimator was constructed with.
\<close>

definition delegate_kwargs :: "('p, 'm, 'a) adapter \<Rightarrow> (string \<times> pyval) list" where
  "delegate_kwargs self =
    [(''metric'', PyStr ''precomputed''), (''eps'', eps self), (''min_samples'', min_samples self),
     (''algorithm'', algorithm self), (''leaf_size'', leaf_size self), (''n_jobs'', n_jobs self)]"

subsection \<open>Concrete data for the worked examples\<close>

text \<open>
  Panels of integer series under natural-number indices; the distance of two series is
  the sum of the absolute differences of their entries, and the distance matrix lists
  it for every pair.
\<close>

datatype ndarray = Ints "int list" | Rows "int list list"

definition series_dist :: "int list \<Rightarrow> int list \<Rightarrow> int" where
  "series_dist x y = sum_list (map (\<lambda>(a, b). \<bar>a - b\<bar>) (zip x y))"

definition abs_dist :: "(nat \<times> int list) list \<Rightarrow> error + int list list" where
  "abs_dist X = Inr (map (\<lambda>i. map (\<lambda>j. series_dist (snd i) (snd j)) X) X)"

text \<open>
  A stand-in for sklearn's DBSCAN, enough to run the examples: a row of the matrix is a
  core sample when at least \<^verbatim>\<open>min_samples\<close> of its entries are within \<^verbatim>\<open>eps\<close>;
  core samples get the label 0 and every other sample the noise label -1. The
  components are the rows of the core samples.
\<close>

definition is_core :: "real \<Rightarrow> int \<Rightarrow> int list \<Rightarrow> bool" where
  "is_core r n row = (n \<le> int (length (filter (\<lambda>d. real_of_int d \<le> r) row)))"

definition toy_dbscan :: "(int list list, ndarray) delegate" where
  "toy_dbscan kwargs D =
    (case (map_of kwargs ''eps'', map_of kwargs ''min_samples'') of
       (Some (PyFloat r), Some (PyInt n)) \<Rightarrow>
         Inr [''core_sample_indices_'' \<mapsto>
                Ints (map int (filter (\<lambda>i. is_core r n (D ! i)) [0..<length D])),
              ''components_'' \<mapsto> Rows (filter (is_core r n) D),
              ''labels_'' \<mapsto> Ints (map (\<lambda>row. if is_core r n row then 0 else - 1) D)]
     | _ \<Rightarrow> Inl (Raised ''InvalidParameterError''))"

text \<open>
  Three panels: the fit data (two near series and a far one), a second object with
  the same content, and new data that shares the instance index 2 with the fit data.
\<close>

definition panel_A :: "(nat \<times> int list) list" where
  "panel_A = [(0, [0, 0]), (1, [0, 1]), (2, [9, 9])]"

definition panel_B :: "(nat \<times> int list) list" where
  "panel_B = [(2, [5, 5]), (3, [9, 8])]"

definition example_adapter :: "((nat \<times> int list) list, int list list, ndarray) adapter" where
  "example_adapter =
     init (Callable abs_dist) (PyFloat 2) (PyInt 2) algorithm_default leaf_size_default
       n_jobs_default"

definition example_world :: "((nat \<times> int list) list, int list list, ndarray) world" where
  "example_world =
     \<lparr>panels = [panel_A, panel_A, panel_B], adapters = [example_adapter], trace = []\<rparr>"

text \<open>The same estimator constructed with the name of a distance.\<close>

definition example_world_str :: "((nat \<times> int list) list, int list list, ndarray) world" where
  "example_world_str =
     \<lparr>panels = [panel_A],
      adapters = [init (StrDistance ''euclidean'') (PyFloat 2) (PyInt 2) algorithm_default
                    leaf_size_default n_jobs_default],
      trace = []\<rparr>"

text \<open>The example estimator after \<^verbatim>\<open>fit\<close> on the first panel.\<close>

definition example_fitted :: "((nat \<times> int list) list, int list list, ndarray) world" where
  "example_fitted = snd (fit toy_dbscan 0 0 example_world)"

text \<open>
  A distance whose output is no distance matrix at all: ragged, asymmetric, with a
  negative entry and a non-zero diagonal.
\<close>

definition bad_dist :: "(nat \<times> int list) list \<Rightarrow> error + int list list" where
  "bad_dist X = Inr [[1, - 2], [3]]"

definition example_world_bad :: "((nat \<times> int list) list, int list list, ndarray) world" where
  "example_world_bad =
     \<lparr>panels = [panel_A],
      adapters = [init (Callable bad_dist) (PyFloat 2) (PyInt 2) algorithm_default
                    leaf_size_default n_jobs_default],
      trace = []\<rparr>"

text \<open>The tags of a distance that handles neither unequal length nor missing values.\<close>

definition example_tags :: "string \<rightharpoonup> tagval" where
  "example_tags =
     map_of [(''capability:multivariate'', TBool True),
             (''capability:unequal_length'', TBool False),
             (''capability:missing_values'', TBool False),
             (''symmetric'', TBool True)]"

section \<open>Properties\<close>

subsection \<open>Auxiliary facts about the constructor and fitting\<close>

lemma init_fields:
  "distance (init d e ms alg ls nj) = d"
  "eps (init d e ms alg ls nj) = e"
  "min_samples (init d e ms alg ls nj) = ms"
  "algorithm (init d e ms alg ls nj) = alg"
  "leaf_size (init d e ms alg ls nj) = ls"
  "n_jobs (init d e ms alg ls nj) = nj"
  "dbscan_obj (init d e ms alg ls nj) = None"
  "X_fit (init d e ms alg ls nj) = None"
  "fitted_attrs (init d e ms alg ls nj) = Map.empty"
  "is_fitted (init d e ms alg ls nj) = False"
  by (simp_all add: init_def Let_def set_tags_def clone_tags_def)

lemma param_dict_DELEGATED_PARAMS:
  "param_dict self DELEGATED_PARAMS = Inr (tl (delegate_kwargs self))"
  by (simp add: DELEGATED_PARAMS_def getattr_param_def delegate_kwargs_def)

lemma param_dict_put [simp]:
  "param_dict (self\<lparr>X_fit := x\<rparr>) keys = param_dict self keys"
  by (induction keys) (simp_all add: getattr_param_def)

lemma copy_fitted_other_fields:
  "distance (copy_fitted d keys self) = distance self"
  "eps (copy_fitted d keys self) = eps self"
  "min_samples (copy_fitted d keys self) = min_samples self"
  "algorithm (copy_fitted d keys self) = algorithm self"
  "leaf_size (copy_fitted d keys self) = leaf_size self"
  "n_jobs (copy_fitted d keys self) = n_jobs self"
  "tags_dynamic (copy_fitted d keys self) = tags_dynamic self"
  "dbscan_obj (copy_fitted d keys self) = dbscan_obj self"
  "X_fit (copy_fitted d keys self) = X_fit self"
  "is_fitted (copy_fitted d keys self) = is_fitted self"
  by (induction keys arbitrary: self; simp split: option.split)+

lemma copy_fitted_attrs:
  "fitted_attrs (copy_fitted d keys self) key =
     (if key \<in> set keys then (case attrs d key of Some v \<Rightarrow> Some v | None \<Rightarrow> fitted_attrs self key)
      else fitted_attrs self key)"
  by (induction keys arbitrary: self) (auto split: option.split)

lemma call_distance_provider:
  "provider_of d = Some f \<Longrightarrow> call_distance d X w = (f (panels w ! X), emit (DistanceCall X) w)"
  by (cases d) simp_all

lemma call_distance_str:
  "provider_of d = None \<Longrightarrow> call_distance d X w = (Inl (TypeError ''str object is not callable''), w)"
  by (cases d) simp_all

lemma inner_fit_callable:
  assumes "self < length (adapters w)" and "X < length (panels w)"
    and "provider_of (distance (adapters w ! self)) = Some f"
  shows "inner_fit sk self X w =
     (let a1 = (adapters w ! self)\<lparr>X_fit := Some X\<rparr>; kw = delegate_kwargs (adapters w ! self) in
      case f (panels w ! X) of
        Inl e \<Rightarrow> (Inl e, w\<lparr>adapters := (adapters w)[self := a1],
                            trace := trace w @ [DistanceCall X]\<rparr>)
      | Inr D \<Rightarrow>
         (case sk kw D of
            Inl e \<Rightarrow>
              (Inl e, w\<lparr>adapters := (adapters w)[self :=
                                 a1\<lparr>dbscan_obj := Some \<lparr>params = kw, attrs = Map.empty\<rparr>\<rparr>],
                         trace := trace w @ [DistanceCall X, DBSCANInit kw, DBSCANFit D]\<rparr>)
          | Inr fitted \<Rightarrow>
              (Inr self, w\<lparr>adapters := (adapters w)[self :=
                                 copy_fitted \<lparr>params = kw, attrs = fitted\<rparr> DELEGATED_FITTED_PARAMS
                                   (a1\<lparr>dbscan_obj := Some \<lparr>params = kw, attrs = fitted\<rparr>\<rparr>)],
                            trace := trace w @ [DistanceCall X, DBSCANInit kw, DBSCANFit D]\<rparr>)))"
  using assms
  by (simp add: inner_fit_def Let_def put_adapter_def emit_def call_distance_provider
      param_dict_DELEGATED_PARAMS delegate_kwargs_def split: sum.split)

lemma inner_fit_str:
  assumes "self < length (adapters w)" and "X < length (panels w)"
    and "provider_of (distance (adapters w ! self)) = None"
  shows "inner_fit sk self X w =
     (Inl (TypeError ''str object is not callable''),
      w\<lparr>adapters := (adapters w)[self := (adapters w ! self)\<lparr>X_fit := Some X\<rparr>]\<rparr>)"
  using assms
  by (simp add: inner_fit_def Let_def put_adapter_def call_distance_str)

lemma inner_fit_dangling:
  "\<not> (self < length (adapters w) \<and> X < length (panels w)) \<Longrightarrow>
   inner_fit sk self X w = (Inl DanglingReference, w)"
  by (auto simp add: inner_fit_def)

lemma inner_fit_frame:
  assumes "inner_fit sk self X w = (r, w')"
  shows "panels w' = panels w" and "length (adapters w') = length (adapters w)"
    and "i \<noteq> self \<Longrightarrow> adapters w' ! i = adapters w ! i"
    and "\<exists>t. trace w' = trace w @ t"
proof -
  consider (bad) "\<not> (self < length (adapters w) \<and> X < length (panels w))"
    | (str) "self < length (adapters w)" "X < length (panels w)"
        "provider_of (distance (adapters w ! self)) = None"
    | (call) f where "self < length (adapters w)" "X < length (panels w)"
        "provider_of (distance (adapters w ! self)) = Some f"
    by (cases "provider_of (distance (adapters w ! self))") auto
  then have "panels w' = panels w \<and> length (adapters w') = length (adapters w)
      \<and> (i \<noteq> self \<longrightarrow> adapters w' ! i = adapters w ! i) \<and> (\<exists>t. trace w' = trace w @ t)"
  proof cases
    case bad
    with assms show ?thesis by (simp add: inner_fit_dangling)
  next
    case str
    with assms show ?thesis by (auto simp add: inner_fit_str)
  next
    case call
    with assms show ?thesis
      by (auto simp add: inner_fit_callable Let_def split: sum.splits)
  qed
  then show "panels w' = panels w" and "length (adapters w') = length (adapters w)"
    and "i \<noteq> self \<Longrightarrow> adapters w' ! i = adapters w ! i"
    and "\<exists>t. trace w' = trace w @ t" by simp_all
qed

lemma inner_fit_returns_self:
  "inner_fit sk self X w = (Inr c, w') \<Longrightarrow> c = self \<and> self < length (adapters w)"
  by (auto simp add: inner_fit_def Let_def split: if_splits prod.splits sum.splits)

lemma fit_frame:
  assumes "fit sk self X w = (r, w')"
  shows "panels w' = panels w" and "length (adapters w') = length (adapters w)"
    and "i \<noteq> self \<Longrightarrow> adapters w' ! i = adapters w ! i"
    and "\<exists>t. trace w' = trace w @ t"
proof -
  obtain r0 w0 where f: "inner_fit sk self X w = (r0, w0)" by (cases "inner_fit sk self X w")
  note fr = inner_fit_frame [OF f]
  have w': "w' = w0 \<or> (\<exists>g. w' = put_adapter self g w0)"
    using assms f inner_fit_returns_self [of sk self X w _ w0]
    by (auto simp add: fit_def split: sum.splits)
  then show "panels w' = panels w" using fr(1) by (auto simp add: put_adapter_def)
  from w' show "length (adapters w') = length (adapters w)"
    using fr(2) by (auto simp add: put_adapter_def)
  from w' show "i \<noteq> self \<Longrightarrow> adapters w' ! i = adapters w ! i"
    using fr(3) by (auto simp add: put_adapter_def)
  from w' show "\<exists>t. trace w' = trace w @ t"
    using fr(4) by (auto simp add: put_adapter_def)
qed

lemma abs_dist_panel_A: "abs_dist panel_A = Inr [[0, 1, 18], [1, 0, 17], [18, 17, 0]]"
  by (simp add: abs_dist_def panel_A_def series_dist_def)

lemma toy_dbscan_A:
  "toy_dbscan [(''metric'', PyStr ''precomputed''), (''eps'', PyFloat 2), (''min_samples'', PyInt 2),
       (''algorithm'', alg), (''leaf_size'', ls), (''n_jobs'', nj)]
     [[0, 1, 18], [1, 0, 17], [18, 17, 0]] =
   Inr [''core_sample_indices_'' \<mapsto> Ints [0, 1],
        ''components_'' \<mapsto> Rows [[0, 1, 18], [1, 0, 17]],
        ''labels_'' \<mapsto> Ints [0, 0, - 1]]"
  by (simp add: toy_dbscan_def is_core_def upt_rec)

lemma example_inner_fit:
  "inner_fit toy_dbscan 0 0 example_world =
    (Inr 0,
     example_world\<lparr>adapters :=
       [copy_fitted
          \<lparr>params = delegate_kwargs example_adapter,
           attrs = [''core_sample_indices_'' \<mapsto> Ints [0, 1],
                    ''components_'' \<mapsto> Rows [[0, 1, 18], [1, 0, 17]],
                    ''labels_'' \<mapsto> Ints [0, 0, - 1]]\<rparr>
          DELEGATED_FITTED_PARAMS
          (example_adapter\<lparr>X_fit := Some 0,
             dbscan_obj := Some \<lparr>params = delegate_kwargs example_adapter,
               attrs = [''core_sample_indices_'' \<mapsto> Ints [0, 1],
                    ''components_'' \<mapsto> Rows [[0, 1, 18], [1, 0, 17]],
                    ''labels_'' \<mapsto> Ints [0, 0, - 1]]\<rparr>\<rparr>)],
       trace := [DistanceCall 0, DBSCANInit (delegate_kwargs example_adapter),
                 DBSCANFit [[0, 1, 18], [1, 0, 17], [18, 17, 0]]]\<rparr>)"
proof -
  have p: "provider_of (distance (adapters example_world ! 0)) = Some abs_dist"
    by (simp add: example_world_def example_adapter_def init_fields)
  have k: "toy_dbscan (delegate_kwargs example_adapter) [[0, 1, 18], [1, 0, 17], [18, 17, 0]] =
     Inr [''core_sample_indices_'' \<mapsto> Ints [0, 1],
        ''components_'' \<mapsto> Rows [[0, 1, 18], [1, 0, 17]],
        ''labels_'' \<mapsto> Ints [0, 0, - 1]]"
    by (simp add: delegate_kwargs_def example_adapter_def init_fields toy_dbscan_A)
  show ?thesis
    using p k
    by (subst inner_fit_callable [where f = abs_dist])
       (simp_all add: example_world_def abs_dist_panel_A Let_def)
qed

lemma copy_fitted_DELEGATED:
  "fitted_attrs (copy_fitted d DELEGATED_FITTED_PARAMS self) key =
     (if key = ''core_sample_indices_'' \<or> key = ''components_ '' \<or> key = ''labels_''
      then (case attrs d key of Some v \<Rightarrow> Some v | None \<Rightarrow> fitted_attrs self key)
      else fitted_attrs self key)"
  unfolding copy_fitted_attrs by (simp add: DELEGATED_FITTED_PARAMS_def)

lemma failed_fit_keeps_is_fitted:
  assumes "fit sk self X w = (Inl e, w')" and "self < length (adapters w)"
  shows "is_fitted (adapters w' ! self) = is_fitted (adapters w ! self)"
proof -
  have i: "inner_fit sk self X w = (Inl e, w')"
    using assms(1) by (auto simp add: fit_def split: prod.splits sum.splits)
  show ?thesis
  proof (cases "X < length (panels w)")
    case False
    with i show ?thesis by (simp add: inner_fit_dangling)
  next
    case True
    show ?thesis
    proof (cases "provider_of (distance (adapters w ! self))")
      case None
      with i True assms(2) show ?thesis by (auto simp add: inner_fit_str)
    next
      case (Some f)
      with i True assms(2) show ?thesis
        by (auto simp add: inner_fit_callable Let_def split: sum.splits)
    qed
  qed
qed

subsection \<open>Auxiliary facts about predicting\<close>

lemma clone_fields:
  "distance (clone a) = distance a"
  "eps (clone a) = eps a"
  "min_samples (clone a) = min_samples a"
  "algorithm (clone a) = algorithm a"
  "leaf_size (clone a) = leaf_size a"
  "n_jobs (clone a) = n_jobs a"
  "dbscan_obj (clone a) = None"
  "X_fit (clone a) = None"
  "fitted_attrs (clone a) = Map.empty"
  "is_fitted (clone a) = False"
  by (simp_all add: clone_def init_fields)

lemma delegate_kwargs_clone: "delegate_kwargs (clone a) = delegate_kwargs a"
  by (simp add: delegate_kwargs_def clone_fields)

lemma inner_predict_same:
  assumes "self < length (adapters w)" and "X < length (panels w)"
    and "X_fit (adapters w ! self) = Some X"
  shows "inner_predict sk upd self X w = (getattr_fitted (adapters w ! self) ''labels_'', w)"
  using assms by (simp add: inner_predict_def)

lemma inner_predict_refit:
  assumes "self < length (adapters w)" and "X < length (panels w)"
    and "X_fit (adapters w ! self) = Some X0" and "X0 < length (panels w)" and "X \<noteq> X0"
  shows "inner_predict sk upd self X w =
     (case fit sk (length (adapters w)) (length (panels w))
             (w\<lparr>panels := panels w @ [upd (panels w ! X0) (panels w ! X)],
                trace := trace w @ [Warn refit_warning],
                adapters := adapters w @ [clone (adapters w ! self)]\<rparr>) of
        (Inl e, w4) \<Rightarrow> (Inl e, w4)
      | (Inr fitted, w4) \<Rightarrow> (getattr_fitted (adapters w4 ! fitted) ''labels_'', w4))"
  using assms
  by (simp add: inner_predict_def new_panel_def new_adapter_def warn_def emit_def Let_def
      nth_append)

lemma fit_callable:
  assumes "self < length (adapters w)" and "X < length (panels w)"
    and "provider_of (distance (adapters w ! self)) = Some f"
    and "f (panels w ! X) = Inr D"
    and "sk (delegate_kwargs (adapters w ! self)) D = Inr fitted"
  shows "fst (fit sk self X w) = Inr self"
    and "fitted_attrs (adapters (snd (fit sk self X w)) ! self) ''labels_'' =
           (case fitted ''labels_'' of Some v \<Rightarrow> Some v
            | None \<Rightarrow> fitted_attrs (adapters w ! self) ''labels_'')"
  using assms
  by (simp_all add: fit_def inner_fit_callable Let_def put_adapter_def copy_fitted_DELEGATED
      split: option.split)

lemma inner_predict_refit_frame:
  assumes "self < length (adapters w)" and "X < length (panels w)"
    and "X_fit (adapters w ! self) = Some X0" and "X0 < length (panels w)" and "X \<noteq> X0"
  shows "panels (snd (inner_predict sk upd self X w)) =
           panels w @ [upd (panels w ! X0) (panels w ! X)]"
    and "length (adapters (snd (inner_predict sk upd self X w))) = Suc (length (adapters w))"
    and "i < length (adapters w) \<Longrightarrow>
           adapters (snd (inner_predict sk upd self X w)) ! i = adapters w ! i"
    and "\<exists>t. trace (snd (inner_predict sk upd self X w)) = trace w @ Warn refit_warning # t"
proof -
  let ?w1 = "w\<lparr>panels := panels w @ [upd (panels w ! X0) (panels w ! X)],
                trace := trace w @ [Warn refit_warning],
                adapters := adapters w @ [clone (adapters w ! self)]\<rparr>"
  obtain r w4 where f: "fit sk (length (adapters w)) (length (panels w)) ?w1 = (r, w4)"
    by (cases "fit sk (length (adapters w)) (length (panels w)) ?w1")
  have s: "snd (inner_predict sk upd self X w) = w4"
    using f by (simp add: inner_predict_refit [OF assms] split: sum.split)
  note fr = fit_frame [OF f]
  show "panels (snd (inner_predict sk upd self X w)) =
           panels w @ [upd (panels w ! X0) (panels w ! X)]"
    using fr(1) s by simp
  show "length (adapters (snd (inner_predict sk upd self X w))) = Suc (length (adapters w))"
    using fr(2) s by simp
  show "adapters (snd (inner_predict sk upd self X w)) ! i = adapters w ! i"
    if "i < length (adapters w)"
    using fr(3) [of i] s that by (simp add: nth_append)
  show "\<exists>t. trace (snd (inner_predict sk upd self X w)) = trace w @ Warn refit_warning # t"
    using fr(4) s by auto
qed

lemma fit_callable_trace:
  assumes "self < length (adapters w)" and "X < length (panels w)"
    and "provider_of (distance (adapters w ! self)) = Some f"
    and "f (panels w ! X) = Inr D"
    and "sk (delegate_kwargs (adapters w ! self)) D = Inr fitted"
  shows "trace (snd (fit sk self X w)) =
           trace w @ [DistanceCall X, DBSCANInit (delegate_kwargs (adapters w ! self)), DBSCANFit D]"
  using assms
  by (simp add: fit_def inner_fit_callable Let_def put_adapter_def)

lemma inner_predict_refit_callable:
  assumes "self < length (adapters w)" and "X < length (panels w)"
    and "X_fit (adapters w ! self) = Some X0" and "X0 < length (panels w)" and "X \<noteq> X0"
    and "provider_of (distance (adapters w ! self)) = Some f"
    and "f (upd (panels w ! X0) (panels w ! X)) = Inr D"
    and "sk (delegate_kwargs (adapters w ! self)) D = Inr fitted"
  shows "fst (inner_predict sk upd self X w) =
           (case fitted ''labels_'' of
              None \<Rightarrow> Inl (AttributeError ''labels_'') | Some l \<Rightarrow> Inr l)"
    and "trace (snd (inner_predict sk upd self X w)) =
           trace w @ [Warn refit_warning, DistanceCall (length (panels w)),
                      DBSCANInit (delegate_kwargs (adapters w ! self)), DBSCANFit D]"
proof -
  let ?a = "adapters w ! self"
  let ?w1 = "w\<lparr>panels := panels w @ [upd (panels w ! X0) (panels w ! X)],
                trace := trace w @ [Warn refit_warning],
                adapters := adapters w @ [clone ?a]\<rparr>"
  let ?c = "length (adapters w)"
  let ?all = "length (panels w)"
  have r: "inner_predict sk upd self X w =
     (case fit sk ?c ?all ?w1 of
        (Inl e, w4) \<Rightarrow> (Inl e, w4)
      | (Inr fitted, w4) \<Rightarrow> (getattr_fitted (adapters w4 ! fitted) ''labels_'', w4))"
    by (rule inner_predict_refit [OF assms(1-5)])
  have c1: "?c < length (adapters ?w1)" and c2: "?all < length (panels ?w1)" by simp_all
  have c3: "provider_of (distance (adapters ?w1 ! ?c)) = Some f"
    using assms(6) by (simp add: clone_fields)
  have c4: "f (panels ?w1 ! ?all) = Inr D" using assms(7) by simp
  have c5: "sk (delegate_kwargs (adapters ?w1 ! ?c)) D = Inr fitted"
    using assms(8) by (simp add: delegate_kwargs_clone)
  note fc = fit_callable [where self = ?c and w = ?w1 and X = ?all and f = f and D = D
        and sk = sk and fitted = fitted, OF c1 c2 c3 c4 c5]
  note ft = fit_callable_trace [where self = ?c and w = ?w1 and X = ?all and f = f and D = D
        and sk = sk and fitted = fitted, OF c1 c2 c3 c4 c5]
  obtain r0 w2 where f: "fit sk ?c ?all ?w1 = (r0, w2)" by (cases "fit sk ?c ?all ?w1")
  with fc have r0: "r0 = Inr ?c"
    and lab: "fitted_attrs (adapters w2 ! ?c) ''labels_'' =
        (case fitted ''labels_'' of Some v \<Rightarrow> Some v | None \<Rightarrow> None)"
    by (simp_all add: clone_fields split: option.split)
  from ft f have tr: "trace w2 = trace w @ [Warn refit_warning, DistanceCall ?all,
      DBSCANInit (delegate_kwargs ?a), DBSCANFit D]"
    by (simp add: delegate_kwargs_clone)
  show "fst (inner_predict sk upd self X w) =
           (case fitted ''labels_'' of
              None \<Rightarrow> Inl (AttributeError ''labels_'') | Some l \<Rightarrow> Inr l)"
    unfolding r f r0 using lab by (simp add: getattr_fitted_def split: option.split)
  show "trace (snd (inner_predict sk upd self X w)) =
           trace w @ [Warn refit_warning, DistanceCall (length (panels w)),
                      DBSCANInit (delegate_kwargs (adapters w ! self)), DBSCANFit D]"
    unfolding r f r0 using tr by simp
qed

lemma update_data_split:
  "take (length X) (update_data X X_new) = X"
  "drop (length X) (update_data X X_new) = filter (\<lambda>inst. fst inst \<notin> fst ` set X) X_new"
  by (simp_all add: update_data_def)

subsection \<open>The worked examples, evaluated\<close>

lemma toy_dbscan_bad:
  "toy_dbscan [(''metric'', PyStr ''precomputed''), (''eps'', PyFloat 2), (''min_samples'', PyInt 2),
       (''algorithm'', alg), (''leaf_size'', ls), (''n_jobs'', nj)] [[1, - 2], [3]] =
   Inr [''core_sample_indices_'' \<mapsto> Ints [0],
        ''components_'' \<mapsto> Rows [[1, - 2]],
        ''labels_'' \<mapsto> Ints [0, - 1]]"
  by (simp add: toy_dbscan_def is_core_def upt_rec)

lemma example_fitted_facts:
  "length (adapters example_fitted) = 1"
  "panels example_fitted = [panel_A, panel_A, panel_B]"
  "X_fit (adapters example_fitted ! 0) = Some 0"
  "fitted_attrs (adapters example_fitted ! 0) ''labels_'' = Some (Ints [0, 0, - 1])"
  "fitted_attrs (adapters example_fitted ! 0) ''core_sample_indices_'' = Some (Ints [0, 1])"
  "distance (adapters example_fitted ! 0) = Callable abs_dist"
  "delegate_kwargs (adapters example_fitted ! 0) =
     [(''metric'', PyStr ''precomputed''), (''eps'', PyFloat 2), (''min_samples'', PyInt 2),
      (''algorithm'', PyStr ''auto''), (''leaf_size'', PyInt 30), (''n_jobs'', PyNone)]"
  "is_fitted (adapters example_fitted ! 0)"
proof -
  have e: "example_fitted =
      put_adapter 0 (\<lambda>a. a\<lparr>is_fitted := True\<rparr>) (snd (inner_fit toy_dbscan 0 0 example_world))"
    by (simp add: example_fitted_def fit_def example_inner_fit)
  show "length (adapters example_fitted) = 1"
    "panels example_fitted = [panel_A, panel_A, panel_B]"
    "X_fit (adapters example_fitted ! 0) = Some 0"
    "fitted_attrs (adapters example_fitted ! 0) ''labels_'' = Some (Ints [0, 0, - 1])"
    "fitted_attrs (adapters example_fitted ! 0) ''core_sample_indices_'' = Some (Ints [0, 1])"
    "distance (adapters example_fitted ! 0) = Callable abs_dist"
    "delegate_kwargs (adapters example_fitted ! 0) =
       [(''metric'', PyStr ''precomputed''), (''eps'', PyFloat 2), (''min_samples'', PyInt 2),
        (''algorithm'', PyStr ''auto''), (''leaf_size'', PyInt 30), (''n_jobs'', PyNone)]"
    "is_fitted (adapters example_fitted ! 0)"
    unfolding e example_inner_fit
    by (simp_all add: put_adapter_def copy_fitted_DELEGATED copy_fitted_other_fields
        example_world_def example_adapter_def init_fields delegate_kwargs_def
        algorithm_default_def leaf_size_default_def n_jobs_default_def)
qed

lemma example_same_content:
  "update_data panel_A panel_A = panel_A"
  by (simp add: update_data_def panel_A_def)

lemma example_predict_equal_content:
  "fst (inner_predict toy_dbscan update_data 0 1 example_fitted) = Inr (Ints [0, 0, - 1])"
  "trace (snd (inner_predict toy_dbscan update_data 0 1 example_fitted)) =
     trace example_fitted @
       [Warn refit_warning, DistanceCall 3,
        DBSCANInit [(''metric'', PyStr ''precomputed''), (''eps'', PyFloat 2),
                    (''min_samples'', PyInt 2), (''algorithm'', PyStr ''auto''),
                    (''leaf_size'', PyInt 30), (''n_jobs'', PyNone)],
        DBSCANFit [[0, 1, 18], [1, 0, 17], [18, 17, 0]]]"
proof -
  have h1: "(0::nat) < length (adapters example_fitted)"
    and h2: "(1::nat) < length (panels example_fitted)"
    and h3: "X_fit (adapters example_fitted ! 0) = Some 0"
    and h4: "(0::nat) < length (panels example_fitted)"
    and h5: "(1::nat) \<noteq> 0"
    and h6: "provider_of (distance (adapters example_fitted ! 0)) = Some abs_dist"
    and h7: "abs_dist (update_data (panels example_fitted ! 0) (panels example_fitted ! 1)) =
        Inr [[0, 1, 18], [1, 0, 17], [18, 17, 0]]"
    and h8: "toy_dbscan (delegate_kwargs (adapters example_fitted ! 0))
        [[0, 1, 18], [1, 0, 17], [18, 17, 0]] =
      Inr [''core_sample_indices_'' \<mapsto> Ints [0, 1],
        ''components_'' \<mapsto> Rows [[0, 1, 18], [1, 0, 17]],
        ''labels_'' \<mapsto> Ints [0, 0, - 1]]"
    by (simp_all add: example_fitted_facts example_same_content abs_dist_panel_A toy_dbscan_A)
  note R = inner_predict_refit_callable [where self = 0 and w = example_fitted and X = 1
      and ?X0.0 = 0 and f = abs_dist and upd = update_data and sk = toy_dbscan
      and D = "[[0, 1, 18], [1, 0, 17], [18, 17, 0]]", OF h1 h2 h3 h4 h5 h6 h7 h8]
  show "fst (inner_predict toy_dbscan update_data 0 1 example_fitted) =
      Inr (Ints [0, 0, - 1])" unfolding R(1) by simp
  show "trace (snd (inner_predict toy_dbscan update_data 0 1 example_fitted)) =
     trace example_fitted @
       [Warn refit_warning, DistanceCall 3,
        DBSCANInit [(''metric'', PyStr ''precomputed''), (''eps'', PyFloat 2),
                    (''min_samples'', PyInt 2), (''algorithm'', PyStr ''auto''),
                    (''leaf_size'', PyInt 30), (''n_jobs'', PyNone)],
        DBSCANFit [[0, 1, 18], [1, 0, 17], [18, 17, 0]]]"
    unfolding R(2) by (simp add: example_fitted_facts)
qed

lemma example_str_fit:
  "fit toy_dbscan 0 0 example_world_str =
     (Inl (TypeError ''str object is not callable''),
      example_world_str\<lparr>adapters := [(adapters example_world_str ! 0)\<lparr>X_fit := Some 0\<rparr>]\<rparr>)"
proof -
  have p: "provider_of (distance (adapters example_world_str ! 0)) = None"
    by (simp add: example_world_str_def init_fields)
  have "inner_fit toy_dbscan 0 0 example_world_str =
     (Inl (TypeError ''str object is not callable''),
      example_world_str\<lparr>adapters :=
        [(adapters example_world_str ! 0)\<lparr>X_fit := Some 0\<rparr>]\<rparr>)"
    using p by (subst inner_fit_str) (simp_all add: example_world_str_def)
  then show ?thesis by (simp add: fit_def)
qed

lemma example_merged:
  "update_data panel_A panel_B = [(0, [0, 0]), (1, [0, 1]), (2, [9, 9]), (3, [9, 8])]"
  by (simp add: update_data_def panel_A_def panel_B_def)

lemma abs_dist_merged:
  "abs_dist [(0, [0, 0]), (1, [0, 1]), (2, [9, 9]), (3, [9, 8])] =
     Inr [[0, 1, 18, 17], [1, 0, 17, 16], [18, 17, 0, 1], [17, 16, 1, 0]]"
  by (simp add: abs_dist_def series_dist_def)

lemma toy_dbscan_merged:
  "toy_dbscan [(''metric'', PyStr ''precomputed''), (''eps'', PyFloat 2), (''min_samples'', PyInt 2),
       (''algorithm'', alg), (''leaf_size'', ls), (''n_jobs'', nj)]
     [[0, 1, 18, 17], [1, 0, 17, 16], [18, 17, 0, 1], [17, 16, 1, 0]] =
   Inr [''core_sample_indices_'' \<mapsto> Ints [0, 1, 2, 3],
        ''components_'' \<mapsto> Rows [[0, 1, 18, 17], [1, 0, 17, 16], [18, 17, 0, 1], [17, 16, 1, 0]],
        ''labels_'' \<mapsto> Ints [0, 0, 0, 0]]"
  by (simp add: toy_dbscan_def is_core_def upt_rec)

subsection \<open>Declared capabilities\<close>

text \<open>
  C6. An estimator constructed with a string-named distance declares, whatever its
  class tags say, that it does not support unequal length, and declares the single
  inner type numpy3D as its supported input.
\<close>

theorem string_distance_downgrades_tags:
  "get_tag (init (StrDistance s) e ms alg ls nj) ''capability:unequal_length'' = Some (TBool False)
   \<and> get_tag (init (StrDistance s) e ms alg ls nj) ''X_inner_mtype'' = Some (TStr ''numpy3D'')"
  by (simp add: get_tag_def get_tags_def init_def set_tags_def tags_to_set_def Let_def map_add_def)

text \<open>
  C7. An estimator constructed with a distance object that declares the multivariate,
  unequal-length and missing-values capabilities declares the same three values itself.
  In particular a distance without unequal-length support yields an estimator without
  it (the example below).
\<close>

theorem provider_tags_propagate:
  assumes "tags_est ''capability:multivariate'' = Some mv"
    and "tags_est ''capability:unequal_length'' = Some ul"
    and "tags_est ''capability:missing_values'' = Some mis"
  shows "get_tag (init (PanelTransformer tags_est f) e ms alg ls nj) ''capability:multivariate'' = Some mv
    \<and> get_tag (init (PanelTransformer tags_est f) e ms alg ls nj) ''capability:unequal_length'' = Some ul
    \<and> get_tag (init (PanelTransformer tags_est f) e ms alg ls nj) ''capability:missing_values'' = Some mis"
  using assms
  by (simp add: get_tag_def get_tags_def init_def clone_tags_def tags_to_clone_def Let_def
      map_add_def restrict_map_def)

theorem provider_tags_propagate_witness:
  "example_tags ''capability:multivariate'' = Some (TBool True)
   \<and> example_tags ''capability:unequal_length'' = Some (TBool False)
   \<and> example_tags ''capability:missing_values'' = Some (TBool False)
   \<and> get_tag (init (PanelTransformer example_tags abs_dist) eps_default min_samples_default
         algorithm_default leaf_size_default n_jobs_default
         :: ((nat \<times> int list) list, int list list, ndarray) adapter)
       ''capability:unequal_length'' = Some (TBool False)"
proof -
  have h1: "example_tags ''capability:multivariate'' = Some (TBool True)"
    and h2: "example_tags ''capability:unequal_length'' = Some (TBool False)"
    and h3: "example_tags ''capability:missing_values'' = Some (TBool False)"
    by (simp_all add: example_tags_def)
  have "get_tag (init (PanelTransformer example_tags abs_dist) eps_default min_samples_default
         algorithm_default leaf_size_default n_jobs_default
         :: ((nat \<times> int list) list, int list list, ndarray) adapter)
       ''capability:unequal_length'' = Some (TBool False)"
    by (rule provider_tags_propagate [OF h1 h2 h3, THEN conjunct2, THEN conjunct1])
  with h1 h2 h3 show ?thesis by simp
qed

subsection \<open>The not-fitted condition\<close>

text \<open>
  C9. On an estimator that no \<^verbatim>\<open>fit\<close> has marked fitted, \<^verbatim>\<open>predict\<close> fails with
  the not-fitted error, a condition of its own and neither an attribute nor a type
  error, and leaves the store as it was. A newly constructed estimator is in that
  state, and a \<^verbatim>\<open>fit\<close> that raises leaves it there (the example: after the failed fit
  with a string-named distance, \<^verbatim>\<open>predict\<close> still reports not-fitted).
\<close>

theorem predict_before_fit_not_fitted:
  assumes "self < length (adapters w)" and "\<not> is_fitted (adapters w ! self)"
  shows "predict sk upd self X w = (Inl NotFittedError, w)"
  using assms by (simp add: predict_def)

theorem predict_before_fit_not_fitted_witness:
  "0 < length (adapters example_world) \<and> \<not> is_fitted (adapters example_world ! 0)
   \<and> predict toy_dbscan update_data 0 0 example_world = (Inl NotFittedError, example_world)
   \<and> fst (fit toy_dbscan 0 0 example_world_str) = Inl (TypeError ''str object is not callable'')
   \<and> fst (predict toy_dbscan update_data 0 0 (snd (fit toy_dbscan 0 0 example_world_str))) =
       Inl NotFittedError"
proof -
  have h1: "0 < length (adapters example_world)"
    and h2: "\<not> is_fitted (adapters example_world ! 0)"
    by (simp_all add: example_world_def example_adapter_def init_fields)
  have g1: "0 < length (adapters (snd (fit toy_dbscan 0 0 example_world_str)))"
    and g2: "\<not> is_fitted (adapters (snd (fit toy_dbscan 0 0 example_world_str)) ! 0)"
    by (simp_all add: example_str_fit) (simp_all add: example_world_str_def init_fields)
  show ?thesis
    using h1 h2
      predict_before_fit_not_fitted [OF h1 h2, of toy_dbscan update_data 0]
      predict_before_fit_not_fitted [OF g1 g2, of toy_dbscan update_data 0]
    by (simp add: example_str_fit)
qed

subsection \<open>The fitted attributes\<close>

text \<open>
  The list \<^verbatim>\<open>DELEGATED_FITTED_PARAMS\<close> spells its second entry with a trailing blank.
  No attribute of a fitted DBSCAN has that name, so the loop of \<^verbatim>\<open>_fit\<close> skips the
  entry, and \<^verbatim>\<open>components_\<close> of the estimator is whatever it was before the call.
\<close>

lemma components_never_copied:
  "fitted_attrs (adapters (snd (inner_fit sk self X w)) ! self) ''components_'' =
   fitted_attrs (adapters w ! self) ''components_''"
proof (cases "self < length (adapters w) \<and> X < length (panels w)")
  case False
  then show ?thesis by (simp add: inner_fit_dangling)
next
  case True
  show ?thesis
  proof (cases "provider_of (distance (adapters w ! self))")
    case None
    with True show ?thesis by (simp add: inner_fit_str)
  next
    case (Some f)
    with True show ?thesis
      by (simp add: inner_fit_callable Let_def copy_fitted_DELEGATED split: sum.split)
  qed
qed

text \<open>
  C1. After a successful \<^verbatim>\<open>fit\<close> the estimator should expose the delegated
  clusterer's \<^verbatim>\<open>components_\<close> next to \<^verbatim>\<open>core_sample_indices_\<close> and
  \<^verbatim>\<open>labels_\<close>. On the example panel the fit succeeds and the fitted DBSCAN has
  \<^verbatim>\<open>components_\<close>, yet the estimator has no \<^verbatim>\<open>components_\<close>; the other two
  attributes are copied.
\<close>

theorem components_not_copied:
  "fst (inner_fit toy_dbscan 0 0 example_world) = Inr 0
   \<and> map_option (\<lambda>d. attrs d ''components_'')
        (dbscan_obj (adapters (snd (inner_fit toy_dbscan 0 0 example_world)) ! 0)) =
       Some (Some (Rows [[0, 1, 18], [1, 0, 17]]))
   \<and> fitted_attrs (adapters (snd (inner_fit toy_dbscan 0 0 example_world)) ! 0) ''components_'' = None
   \<and> fitted_attrs (adapters (snd (inner_fit toy_dbscan 0 0 example_world)) ! 0) ''labels_'' =
       Some (Ints [0, 0, - 1])
   \<and> fitted_attrs (adapters (snd (inner_fit toy_dbscan 0 0 example_world)) ! 0)
        ''core_sample_indices_'' = Some (Ints [0, 1])"
  by (simp add: example_inner_fit copy_fitted_DELEGATED copy_fitted_other_fields
      example_adapter_def init_fields)

subsection \<open>A distance given by name\<close>

text \<open>A string is not callable, so \<^verbatim>\<open>_fit\<close> never returns for a string-named distance.\<close>

lemma string_distance_never_fits:
  "distance (adapters w ! self) = StrDistance s \<Longrightarrow> fst (inner_fit sk self X w) \<noteq> Inr c"
  by (cases "self < length (adapters w) \<and> X < length (panels w)")
     (simp_all add: inner_fit_dangling inner_fit_str)

text \<open>
  C2. With a string-named distance, \<^verbatim>\<open>fit\<close> should compute the distance matrix of
  the panel and fit the clusterer on it. On the example panel and the name
  \<^verbatim>\<open>euclidean\<close> it raises \<^verbatim>\<open>TypeError\<close> instead, after storing the fit data: no
  distance is entered and no clusterer is constructed.
\<close>

theorem string_distance_fit_raises:
  "inner_fit toy_dbscan 0 0 example_world_str =
     (Inl (TypeError ''str object is not callable''),
      example_world_str\<lparr>adapters :=
        [(adapters example_world_str ! 0)\<lparr>X_fit := Some 0\<rparr>]\<rparr>)
   \<and> fst (fit toy_dbscan 0 0 example_world_str) = Inl (TypeError ''str object is not callable'')
   \<and> trace (snd (fit toy_dbscan 0 0 example_world_str)) = []
   \<and> dbscan_obj (adapters (snd (fit toy_dbscan 0 0 example_world_str)) ! 0) = None"
proof -
  have p: "provider_of (distance (adapters example_world_str ! 0)) = None"
    by (simp add: example_world_str_def init_fields)
  have "inner_fit toy_dbscan 0 0 example_world_str =
     (Inl (TypeError ''str object is not callable''),
      example_world_str\<lparr>adapters :=
        [(adapters example_world_str ! 0)\<lparr>X_fit := Some 0\<rparr>]\<rparr>)"
    using p by (subst inner_fit_str) (simp_all add: example_world_str_def)
  then show ?thesis
    by (simp add: example_str_fit) (simp add: example_world_str_def init_fields)
qed

subsection \<open>What reaches the delegated clusterer\<close>

text \<open>
  C8. Whenever the distance returns a matrix, \<^verbatim>\<open>_fit\<close> constructs the DBSCAN with
  \<^verbatim>\<open>metric = precomputed\<close> and with \<^verbatim>\<open>eps\<close>, \<^verbatim>\<open>min_samples\<close>,
  \<^verbatim>\<open>algorithm\<close>, \<^verbatim>\<open>leaf_size\<close> and \<^verbatim>\<open>n_jobs\<close> exactly as the estimator holds
  them, and then fits it on that matrix: the trace shows the construction and the
  fit, and the DBSCAN stored on the estimator has these arguments and the attributes
  its fit produced.
\<close>

theorem fit_constructs_delegate_with_passthrough_params:
  assumes "self < length (adapters w)" and "X < length (panels w)"
    and "provider_of (distance (adapters w ! self)) = Some f"
    and "f (panels w ! X) = Inr D"
  shows "let a = adapters w ! self;
             kwargs = [(''metric'', PyStr ''precomputed''), (''eps'', eps a),
                       (''min_samples'', min_samples a), (''algorithm'', algorithm a),
                       (''leaf_size'', leaf_size a), (''n_jobs'', n_jobs a)];
             w' = snd (inner_fit sk self X w)
         in trace w' = trace w @ [DistanceCall X, DBSCANInit kwargs, DBSCANFit D]
          \<and> map_option params (dbscan_obj (adapters w' ! self)) = Some kwargs
          \<and> map_option attrs (dbscan_obj (adapters w' ! self)) =
              Some (case sk kwargs D of Inl e \<Rightarrow> Map.empty | Inr fitted \<Rightarrow> fitted)"
  using assms
  by (simp add: inner_fit_callable Let_def delegate_kwargs_def copy_fitted_other_fields
      split: sum.split)

theorem fit_constructs_delegate_with_passthrough_params_witness:
  "(0::nat) < length (adapters example_world) \<and> (0::nat) < length (panels example_world)
   \<and> provider_of (distance (adapters example_world ! 0)) = Some abs_dist
   \<and> abs_dist (panels example_world ! 0) = Inr [[0, 1, 18], [1, 0, 17], [18, 17, 0]]
   \<and> trace (snd (inner_fit toy_dbscan 0 0 example_world)) =
       [DistanceCall 0,
        DBSCANInit [(''metric'', PyStr ''precomputed''), (''eps'', PyFloat 2),
                    (''min_samples'', PyInt 2), (''algorithm'', PyStr ''auto''),
                    (''leaf_size'', PyInt 30), (''n_jobs'', PyNone)],
        DBSCANFit [[0, 1, 18], [1, 0, 17], [18, 17, 0]]]
   \<and> map_option params (dbscan_obj (adapters (snd (inner_fit toy_dbscan 0 0 example_world)) ! 0)) =
       Some [(''metric'', PyStr ''precomputed''), (''eps'', PyFloat 2),
             (''min_samples'', PyInt 2), (''algorithm'', PyStr ''auto''),
             (''leaf_size'', PyInt 30), (''n_jobs'', PyNone)]"
proof -
  have h1: "(0::nat) < length (adapters example_world)"
    and h2: "(0::nat) < length (panels example_world)"
    and h3: "provider_of (distance (adapters example_world ! 0)) = Some abs_dist"
    and h4: "abs_dist (panels example_world ! 0) = Inr [[0, 1, 18], [1, 0, 17], [18, 17, 0]]"
    by (simp_all add: example_world_def example_adapter_def init_fields abs_dist_panel_A)
  show ?thesis
    using h1 h2 h3 h4
      fit_constructs_delegate_with_passthrough_params [OF h1 h2 h3 h4, of toy_dbscan]
    by (simp add: Let_def example_world_def example_adapter_def init_fields
        algorithm_default_def leaf_size_default_def n_jobs_default_def)
qed

text \<open>
  C10. With a callable distance, \<^verbatim>\<open>_fit\<close> enters the distance exactly once, on the
  panel it was given. When the distance raises, nothing else happens; when it returns
  a matrix, whatever that matrix is, it is handed to the DBSCAN's fit as it is, and
  the outcome of \<^verbatim>\<open>_fit\<close> is decided by the distance and the DBSCAN alone: there is
  no check of the matrix in between. The example passes a ragged, asymmetric matrix
  with a negative entry.
\<close>

theorem fit_calls_distance_once_and_forwards_matrix:
  assumes "self < length (adapters w)" and "X < length (panels w)"
    and "provider_of (distance (adapters w ! self)) = Some f"
  shows "trace (snd (inner_fit sk self X w)) =
           trace w @
             (case f (panels w ! X) of
                Inl e \<Rightarrow> [DistanceCall X]
              | Inr D \<Rightarrow> [DistanceCall X, DBSCANInit (delegate_kwargs (adapters w ! self)),
                          DBSCANFit D])
         \<and> fst (inner_fit sk self X w) =
             (case f (panels w ! X) of
                Inl e \<Rightarrow> Inl e
              | Inr D \<Rightarrow>
                 (case sk (delegate_kwargs (adapters w ! self)) D of
                    Inl e \<Rightarrow> Inl e
                  | Inr fitted \<Rightarrow> Inr self))"
  using assms
  by (simp add: inner_fit_callable Let_def split: sum.split)

theorem fit_calls_distance_once_and_forwards_matrix_witness:
  "(0::nat) < length (adapters example_world_bad) \<and> (0::nat) < length (panels example_world_bad)
   \<and> provider_of (distance (adapters example_world_bad ! 0)) = Some bad_dist
   \<and> trace (snd (inner_fit toy_dbscan 0 0 example_world_bad)) =
       [DistanceCall 0,
        DBSCANInit [(''metric'', PyStr ''precomputed''), (''eps'', PyFloat 2),
                    (''min_samples'', PyInt 2), (''algorithm'', PyStr ''auto''),
                    (''leaf_size'', PyInt 30), (''n_jobs'', PyNone)],
        DBSCANFit [[1, - 2], [3]]]
   \<and> fst (inner_fit toy_dbscan 0 0 example_world_bad) = Inr 0"
proof -
  have h1: "(0::nat) < length (adapters example_world_bad)"
    and h2: "(0::nat) < length (panels example_world_bad)"
    and h3: "provider_of (distance (adapters example_world_bad ! 0)) = Some bad_dist"
    by (simp_all add: example_world_bad_def init_fields)
  show ?thesis
    using h1 h2 h3
      fit_calls_distance_once_and_forwards_matrix [OF h1 h2 h3, of toy_dbscan]
    by (simp add: example_world_bad_def init_fields bad_dist_def delegate_kwargs_def
        toy_dbscan_bad algorithm_default_def leaf_size_default_def n_jobs_default_def)
qed

subsection \<open>Predicting on the fit data and on new data\<close>

text \<open>
  C3, as stated, fails. It has \<^verbatim>\<open>_predict\<close> return the stored labels if and only if
  the panel is the very object stored by \<^verbatim>\<open>_fit\<close>. A second panel object with the
  content of the fit data is not that object, yet \<^verbatim>\<open>_predict\<close> returns labels equal,
  element by element, to the stored ones: the merged panel is the fit data again and
  the clone's fit computes the same labels.
\<close>

theorem equal_content_panel_gets_stored_labels:
  "(1::nat) \<noteq> 0
   \<and> X_fit (adapters example_fitted ! 0) = Some 0
   \<and> fitted_attrs (adapters example_fitted ! 0) ''labels_'' = Some (Ints [0, 0, - 1])
   \<and> fst (inner_predict toy_dbscan update_data 0 1 example_fitted) = Inr (Ints [0, 0, - 1])"
proof -
  have "(1::nat) \<noteq> 0" by simp
  moreover note example_fitted_facts(3,4) example_predict_equal_content(1)
  ultimately show ?thesis by blast
qed

text \<open>
  C3, amended. On a fitted estimator, \<^verbatim>\<open>_predict\<close> takes the shortcut exactly when
  the panel it is given is the very object stored by \<^verbatim>\<open>_fit\<close>: then it returns the
  stored labels and leaves the store as it was. For any other object, also one of equal
  content, the store changes: the warning is emitted and the result is that of a clone
  fitted on the updated data, which is the labels the DBSCAN computes from the distance
  matrix of the updated data whenever distance and DBSCAN succeed there. Those labels
  may be equal to the stored ones, so the paths differ in what is done, not necessarily
  in the values returned.
\<close>

theorem predict_takes_shortcut_iff_identical:
  assumes "self < length (adapters w)" and "X < length (panels w)"
    and "X_fit (adapters w ! self) = Some X0" and "X0 < length (panels w)"
    and "fitted_attrs (adapters w ! self) ''labels_'' = Some ls"
  shows "(X = X0 \<longrightarrow> inner_predict sk upd self X w = (Inr ls, w))
       \<and> (snd (inner_predict sk upd self X w) = w) = (X = X0)
       \<and> (X \<noteq> X0 \<longrightarrow>
            inner_predict sk upd self X w =
              (case fit sk (length (adapters w)) (length (panels w))
                      (w\<lparr>panels := panels w @ [upd (panels w ! X0) (panels w ! X)],
                         adapters := adapters w @ [clone (adapters w ! self)],
                         trace := trace w @ [Warn refit_warning]\<rparr>) of
                 (Inl e, w2) \<Rightarrow> (Inl e, w2)
               | (Inr fitted, w2) \<Rightarrow> (getattr_fitted (adapters w2 ! fitted) ''labels_'', w2))
            \<and> (\<exists>t. trace (snd (inner_predict sk upd self X w)) =
                     trace w @ Warn refit_warning # t)
            \<and> (\<forall>f D fitted.
                  provider_of (distance (adapters w ! self)) = Some f
                  \<and> f (upd (panels w ! X0) (panels w ! X)) = Inr D
                  \<and> sk (delegate_kwargs (adapters w ! self)) D = Inr fitted \<longrightarrow>
                  fst (inner_predict sk upd self X w) =
                    (case fitted ''labels_'' of
                       None \<Rightarrow> Inl (AttributeError ''labels_'') | Some l \<Rightarrow> Inr l)
                  \<and> trace (snd (inner_predict sk upd self X w)) =
                      trace w @ [Warn refit_warning, DistanceCall (length (panels w)),
                                 DBSCANInit (delegate_kwargs (adapters w ! self)),
                                 DBSCANFit D]))"
proof (cases "X = X0")
  case True
  with assms show ?thesis by (simp add: inner_predict_same getattr_fitted_def)
next
  case False
  note h = assms(1-4) False
  note fr = inner_predict_refit_frame [where sk = sk and upd = upd, OF h]
  have ne: "snd (inner_predict sk upd self X w) \<noteq> w"
    using fr(2) by auto
  have w1: "w\<lparr>panels := panels w @ [upd (panels w ! X0) (panels w ! X)],
               adapters := adapters w @ [clone (adapters w ! self)],
               trace := trace w @ [Warn refit_warning]\<rparr> =
            w\<lparr>panels := panels w @ [upd (panels w ! X0) (panels w ! X)],
               trace := trace w @ [Warn refit_warning],
               adapters := adapters w @ [clone (adapters w ! self)]\<rparr>" by simp
  have r: "inner_predict sk upd self X w =
              (case fit sk (length (adapters w)) (length (panels w))
                      (w\<lparr>panels := panels w @ [upd (panels w ! X0) (panels w ! X)],
                         adapters := adapters w @ [clone (adapters w ! self)],
                         trace := trace w @ [Warn refit_warning]\<rparr>) of
                 (Inl e, w2) \<Rightarrow> (Inl e, w2)
               | (Inr fitted, w2) \<Rightarrow> (getattr_fitted (adapters w2 ! fitted) ''labels_'', w2))"
    unfolding w1 by (rule inner_predict_refit [OF h])
  have l: "fst (inner_predict sk upd self X w) =
                    (case fitted ''labels_'' of
                       None \<Rightarrow> Inl (AttributeError ''labels_'') | Some l \<Rightarrow> Inr l)
                  \<and> trace (snd (inner_predict sk upd self X w)) =
                      trace w @ [Warn refit_warning, DistanceCall (length (panels w)),
                                 DBSCANInit (delegate_kwargs (adapters w ! self)),
                                 DBSCANFit D]"
    if "provider_of (distance (adapters w ! self)) = Some f"
      and "f (upd (panels w ! X0) (panels w ! X)) = Inr D"
      and "sk (delegate_kwargs (adapters w ! self)) D = Inr fitted" for f D fitted
    using inner_predict_refit_callable [where self = self and w = w and X = X and ?X0.0 = X0
        and f = f and upd = upd and sk = sk and D = D and fitted = fitted, OF h that]
    by simp
  from False ne r fr(4) l show ?thesis by blast
qed

theorem predict_takes_shortcut_iff_identical_witness:
  "(0::nat) < length (adapters example_fitted) \<and> (1::nat) < length (panels example_fitted)
   \<and> X_fit (adapters example_fitted ! 0) = Some 0
   \<and> fitted_attrs (adapters example_fitted ! 0) ''labels_'' = Some (Ints [0, 0, - 1])
   \<and> panels example_fitted ! 1 = panels example_fitted ! 0
   \<and> inner_predict toy_dbscan update_data 0 0 example_fitted =
       (Inr (Ints [0, 0, - 1]), example_fitted)
   \<and> snd (inner_predict toy_dbscan update_data 0 1 example_fitted) \<noteq> example_fitted
   \<and> fst (inner_predict toy_dbscan update_data 0 1 example_fitted) = Inr (Ints [0, 0, - 1])
   \<and> trace (snd (inner_predict toy_dbscan update_data 0 1 example_fitted)) =
       trace example_fitted @
         [Warn refit_warning, DistanceCall 3,
          DBSCANInit [(''metric'', PyStr ''precomputed''), (''eps'', PyFloat 2),
                      (''min_samples'', PyInt 2), (''algorithm'', PyStr ''auto''),
                      (''leaf_size'', PyInt 30), (''n_jobs'', PyNone)],
          DBSCANFit [[0, 1, 18], [1, 0, 17], [18, 17, 0]]]"
proof -
  have h1: "(0::nat) < length (adapters example_fitted)"
    and h2: "(1::nat) < length (panels example_fitted)"
    and h2': "(0::nat) < length (panels example_fitted)"
    and h3: "X_fit (adapters example_fitted ! 0) = Some 0"
    and h5: "fitted_attrs (adapters example_fitted ! 0) ''labels_'' = Some (Ints [0, 0, - 1])"
    and eq: "panels example_fitted ! 1 = panels example_fitted ! 0"
    by (simp_all add: example_fitted_facts)
  have p1: "provider_of (distance (adapters example_fitted ! 0)) = Some abs_dist"
    and p2: "abs_dist (update_data (panels example_fitted ! 0) (panels example_fitted ! 1)) =
        Inr [[0, 1, 18], [1, 0, 17], [18, 17, 0]]"
    and p3: "toy_dbscan (delegate_kwargs (adapters example_fitted ! 0))
        [[0, 1, 18], [1, 0, 17], [18, 17, 0]] =
      Inr [''core_sample_indices_'' \<mapsto> Ints [0, 1],
        ''components_'' \<mapsto> Rows [[0, 1, 18], [1, 0, 17]],
        ''labels_'' \<mapsto> Ints [0, 0, - 1]]"
    by (simp_all add: example_fitted_facts example_same_content abs_dist_panel_A toy_dbscan_A)
  note T0 = predict_takes_shortcut_iff_identical [OF h1 h2' h3 h2' h5,
      where sk = toy_dbscan and upd = update_data]
  note T1 = predict_takes_shortcut_iff_identical [OF h1 h2 h3 h2' h5,
      where sk = toy_dbscan and upd = update_data]
  have n10: "(1::nat) \<noteq> 0" by simp
  from T0 have a: "inner_predict toy_dbscan update_data 0 0 example_fitted =
       (Inr (Ints [0, 0, - 1]), example_fitted)" by blast
  from T1 n10 have b:
    "snd (inner_predict toy_dbscan update_data 0 1 example_fitted) \<noteq> example_fitted"
    by blast
  from T1 have "\<forall>f D fitted.
      provider_of (distance (adapters example_fitted ! 0)) = Some f
      \<and> f (update_data (panels example_fitted ! 0) (panels example_fitted ! 1)) = Inr D
      \<and> toy_dbscan (delegate_kwargs (adapters example_fitted ! 0)) D = Inr fitted \<longrightarrow>
      fst (inner_predict toy_dbscan update_data 0 1 example_fitted) =
        (case fitted ''labels_'' of None \<Rightarrow> Inl (AttributeError ''labels_'') | Some l \<Rightarrow> Inr l)
      \<and> trace (snd (inner_predict toy_dbscan update_data 0 1 example_fitted)) =
          trace example_fitted @ [Warn refit_warning, DistanceCall (length (panels example_fitted)),
             DBSCANInit (delegate_kwargs (adapters example_fitted ! 0)), DBSCANFit D]"
    using n10 by blast
  from this [rule_format, OF conjI [OF p1 conjI [OF p2 p3]]]
  have c: "fst (inner_predict toy_dbscan update_data 0 1 example_fitted) = Inr (Ints [0, 0, - 1])"
    and d: "trace (snd (inner_predict toy_dbscan update_data 0 1 example_fitted)) =
       trace example_fitted @
         [Warn refit_warning, DistanceCall 3,
          DBSCANInit [(''metric'', PyStr ''precomputed''), (''eps'', PyFloat 2),
                      (''min_samples'', PyInt 2), (''algorithm'', PyStr ''auto''),
                      (''leaf_size'', PyInt 30), (''n_jobs'', PyNone)],
          DBSCANFit [[0, 1, 18], [1, 0, 17], [18, 17, 0]]]"
    by (simp_all add: example_fitted_facts)
  from h1 h2 h3 h5 eq a b c d show ?thesis by simp
qed

text \<open>
  C4. On a fitted estimator and a panel that is not the stored object, \<^verbatim>\<open>_predict\<close>
  emits the warning and returns what a fresh clone, constructed with the same six
  arguments and not fitted, yields when fitted on the merged panel: the clone's labels,
  or the exception of that fit. When distance and DBSCAN succeed on the merged panel,
  the result is the labels the DBSCAN computed there. The merged panel starts with the
  fit data, unchanged, followed by the new instances whose index is not among the fit
  data's, in their order.
\<close>

theorem predict_new_data_refits_clone_on_merged:
  assumes "self < length (adapters w)" and "X < length (panels w)"
    and "X_fit (adapters w ! self) = Some X0" and "X0 < length (panels w)" and "X \<noteq> X0"
  shows "let a = adapters w ! self;
             merged = update_data (panels w ! X0) (panels w ! X);
             c = length (adapters w);
             all_X = length (panels w);
             w1 = w\<lparr>panels := panels w @ [merged], adapters := adapters w @ [clone a],
                    trace := trace w @ [Warn refit_warning]\<rparr>;
             res = inner_predict sk update_data self X w
         in res = (case fit sk c all_X w1 of
                     (Inl e, w2) \<Rightarrow> (Inl e, w2)
                   | (Inr fitted, w2) \<Rightarrow> (getattr_fitted (adapters w2 ! fitted) ''labels_'', w2))
          \<and> (\<exists>t. trace (snd res) = trace w @ Warn refit_warning # t)
          \<and> (\<forall>f D fitted.
                provider_of (distance a) = Some f \<and> f merged = Inr D
                \<and> sk (delegate_kwargs a) D = Inr fitted \<longrightarrow>
                fst res = (case fitted ''labels_'' of
                             None \<Rightarrow> Inl (AttributeError ''labels_'') | Some l \<Rightarrow> Inr l))
          \<and> distance (clone a) = distance a \<and> eps (clone a) = eps a
          \<and> min_samples (clone a) = min_samples a \<and> algorithm (clone a) = algorithm a
          \<and> leaf_size (clone a) = leaf_size a \<and> n_jobs (clone a) = n_jobs a
          \<and> \<not> is_fitted (clone a) \<and> X_fit (clone a) = None \<and> fitted_attrs (clone a) = Map.empty
          \<and> take (length (panels w ! X0)) merged = panels w ! X0
          \<and> drop (length (panels w ! X0)) merged =
              filter (\<lambda>inst. fst inst \<notin> fst ` set (panels w ! X0)) (panels w ! X)"
proof -
  let ?a = "adapters w ! self"
  let ?merged = "update_data (panels w ! X0) (panels w ! X)"
  let ?w1 = "w\<lparr>panels := panels w @ [?merged], trace := trace w @ [Warn refit_warning],
                adapters := adapters w @ [clone ?a]\<rparr>"
  let ?res = "inner_predict sk update_data self X w"
  let ?c = "length (adapters w)"
  let ?all = "length (panels w)"
  have w1: "w\<lparr>panels := panels w @ [?merged], adapters := adapters w @ [clone ?a],
                    trace := trace w @ [Warn refit_warning]\<rparr> = ?w1" by simp
  have r: "?res = (case fit sk ?c ?all ?w1 of
                     (Inl e, w2) \<Rightarrow> (Inl e, w2)
                   | (Inr fitted, w2) \<Rightarrow> (getattr_fitted (adapters w2 ! fitted) ''labels_'', w2))"
    by (rule inner_predict_refit [OF assms])
  have t: "\<exists>t. trace (snd ?res) = trace w @ Warn refit_warning # t"
    by (rule inner_predict_refit_frame(4) [OF assms])
  have l: "fst ?res = (case fitted ''labels_'' of
                             None \<Rightarrow> Inl (AttributeError ''labels_'') | Some l \<Rightarrow> Inr l)"
    if "provider_of (distance ?a) = Some f" and "f ?merged = Inr D"
      and "sk (delegate_kwargs ?a) D = Inr fitted" for f D fitted
  proof -
    have c1: "?c < length (adapters ?w1)" and c2: "?all < length (panels ?w1)" by simp_all
    have c3: "provider_of (distance (adapters ?w1 ! ?c)) = Some f"
      using that(1) by (simp add: clone_fields)
    have c4: "f (panels ?w1 ! ?all) = Inr D" using that(2) by simp
    have c5: "sk (delegate_kwargs (adapters ?w1 ! ?c)) D = Inr fitted"
      using that(3) by (simp add: delegate_kwargs_clone)
    note fc = fit_callable [where self = ?c and w = ?w1 and X = ?all and f = f and D = D
        and sk = sk and fitted = fitted, OF c1 c2 c3 c4 c5]
    obtain r0 w2 where f: "fit sk ?c ?all ?w1 = (r0, w2)" by (cases "fit sk ?c ?all ?w1")
    with fc have r0: "r0 = Inr ?c"
      and lab: "fitted_attrs (adapters w2 ! ?c) ''labels_'' =
          (case fitted ''labels_'' of Some v \<Rightarrow> Some v | None \<Rightarrow> None)"
      by (simp_all add: clone_fields split: option.split)
    show ?thesis
      unfolding r f r0 using lab
      by (simp add: getattr_fitted_def split: option.split)
  qed
  show ?thesis
    unfolding Let_def w1
    using r t l by (simp add: clone_fields update_data_split)
qed

theorem predict_new_data_refits_clone_on_merged_witness:
  "(0::nat) < length (adapters example_fitted) \<and> (2::nat) < length (panels example_fitted)
   \<and> X_fit (adapters example_fitted ! 0) = Some 0 \<and> (2::nat) \<noteq> 0
   \<and> update_data (panels example_fitted ! 0) (panels example_fitted ! 2) =
       [(0, [0, 0]), (1, [0, 1]), (2, [9, 9]), (3, [9, 8])]
   \<and> fst (inner_predict toy_dbscan update_data 0 2 example_fitted) = Inr (Ints [0, 0, 0, 0])
   \<and> (\<exists>t. trace (snd (inner_predict toy_dbscan update_data 0 2 example_fitted)) =
            trace example_fitted @ Warn refit_warning # t)"
proof -
  have h1: "(0::nat) < length (adapters example_fitted)"
    and h2: "(2::nat) < length (panels example_fitted)"
    and h3: "X_fit (adapters example_fitted ! 0) = Some 0"
    and h4: "(0::nat) < length (panels example_fitted)"
    and h5: "(2::nat) \<noteq> 0"
    and m: "update_data (panels example_fitted ! 0) (panels example_fitted ! 2) =
       [(0, [0, 0]), (1, [0, 1]), (2, [9, 9]), (3, [9, 8])]"
    by (simp_all add: example_fitted_facts example_merged)
  note T = predict_new_data_refits_clone_on_merged [OF h1 h2 h3 h4 h5, of toy_dbscan,
      unfolded Let_def m]
  from T have tr: "\<exists>t. trace (snd (inner_predict toy_dbscan update_data 0 2 example_fitted)) =
            trace example_fitted @ Warn refit_warning # t" by blast
  have p1: "provider_of (distance (adapters example_fitted ! 0)) = Some abs_dist"
    by (simp add: example_fitted_facts)
  have p2: "abs_dist [(0, [0, 0]), (1, [0, 1]), (2, [9, 9]), (3, [9, 8])] =
      Inr [[0, 1, 18, 17], [1, 0, 17, 16], [18, 17, 0, 1], [17, 16, 1, 0]]"
    by (rule abs_dist_merged)
  have p3: "toy_dbscan (delegate_kwargs (adapters example_fitted ! 0))
        [[0, 1, 18, 17], [1, 0, 17, 16], [18, 17, 0, 1], [17, 16, 1, 0]] =
      Inr [''core_sample_indices_'' \<mapsto> Ints [0, 1, 2, 3],
        ''components_'' \<mapsto> Rows [[0, 1, 18, 17], [1, 0, 17, 16], [18, 17, 0, 1], [17, 16, 1, 0]],
        ''labels_'' \<mapsto> Ints [0, 0, 0, 0]]"
    by (simp add: example_fitted_facts toy_dbscan_merged)
  from T have "\<forall>f D fitted.
      provider_of (distance (adapters example_fitted ! 0)) = Some f
      \<and> f [(0, [0, 0]), (1, [0, 1]), (2, [9, 9]), (3, [9, 8])] = Inr D
      \<and> toy_dbscan (delegate_kwargs (adapters example_fitted ! 0)) D = Inr fitted \<longrightarrow>
      fst (inner_predict toy_dbscan update_data 0 2 example_fitted) =
        (case fitted ''labels_'' of None \<Rightarrow> Inl (AttributeError ''labels_'') | Some l \<Rightarrow> Inr l)"
    by blast
  from this [rule_format, OF conjI [OF p1 conjI [OF p2 p3]]]
  have "fst (inner_predict toy_dbscan update_data 0 2 example_fitted) = Inr (Ints [0, 0, 0, 0])"
    by simp
  with h1 h2 h3 h5 m tr show ?thesis by simp
qed

text \<open>
  C5. On a fitted estimator and a panel that is not the stored object, \<^verbatim>\<open>_predict\<close>
  leaves the estimator as it was, whether the clone's fit succeeds or raises: its
  \<^verbatim>\<open>labels_\<close>, \<^verbatim>\<open>core_sample_indices_\<close> and \<^verbatim>\<open>components_\<close>, the reference to its
  fit data, and the content of the fit data.
\<close>

theorem predict_new_data_keeps_fitted_state:
  assumes "self < length (adapters w)" and "X < length (panels w)"
    and "X_fit (adapters w ! self) = Some X0" and "X0 < length (panels w)" and "X \<noteq> X0"
  shows "let w' = snd (inner_predict sk upd self X w)
         in adapters w' ! self = adapters w ! self
          \<and> fitted_attrs (adapters w' ! self) ''labels_'' = fitted_attrs (adapters w ! self) ''labels_''
          \<and> fitted_attrs (adapters w' ! self) ''core_sample_indices_'' =
              fitted_attrs (adapters w ! self) ''core_sample_indices_''
          \<and> fitted_attrs (adapters w' ! self) ''components_'' =
              fitted_attrs (adapters w ! self) ''components_''
          \<and> X_fit (adapters w' ! self) = Some X0
          \<and> panels w' ! X0 = panels w ! X0"
proof -
  note fr = inner_predict_refit_frame [where sk = sk and upd = upd, OF assms]
  have a: "adapters (snd (inner_predict sk upd self X w)) ! self = adapters w ! self"
    using fr(3) assms(1) by simp
  have p: "panels (snd (inner_predict sk upd self X w)) ! X0 = panels w ! X0"
    using fr(1) assms(4) by (simp add: nth_append)
  show ?thesis using a p assms(3) by (simp add: Let_def)
qed

theorem predict_new_data_keeps_fitted_state_witness:
  "(0::nat) < length (adapters example_fitted) \<and> (2::nat) < length (panels example_fitted)
   \<and> X_fit (adapters example_fitted ! 0) = Some 0 \<and> (2::nat) \<noteq> 0
   \<and> adapters (snd (inner_predict toy_dbscan update_data 0 2 example_fitted)) ! 0 =
       adapters example_fitted ! 0
   \<and> fitted_attrs (adapters (snd (inner_predict toy_dbscan update_data 0 2 example_fitted)) ! 0)
        ''labels_'' = Some (Ints [0, 0, - 1])
   \<and> panels (snd (inner_predict toy_dbscan update_data 0 2 example_fitted)) ! 0 = panel_A"
proof -
  have h1: "(0::nat) < length (adapters example_fitted)"
    and h2: "(2::nat) < length (panels example_fitted)"
    and h3: "X_fit (adapters example_fitted ! 0) = Some 0"
    and h4: "(0::nat) < length (panels example_fitted)"
    and h5: "(2::nat) \<noteq> 0"
    by (simp_all add: example_fitted_facts)
  show ?thesis
    using h1 h2 h3 h5
      predict_new_data_keeps_fitted_state [OF h1 h2 h3 h4 h5, of toy_dbscan update_data]
    by (simp add: Let_def example_fitted_facts)
qed

end
